theory Spec2Isabelle
  imports Complex_Main "HOL-Library.Multiset"
begin

section \<open>Access-key builder (src/utils/cryptoUtils.js)\<close>

text \<open>
  JavaScript strings are modelled as \<open>string\<close>. Every argument of
  \<open>generarClaveAcceso\<close> is taken after its \<open>toString()\<close>; a \<open>null\<close> or
  \<open>undefined\<close> argument (on which \<open>toString\<close> raises a TypeError) is excluded by the
  types. The luxon calls are inputs of the model: \<open>fromISO\<close> stands for
  \<open>DateTime.fromISO(fecha).toFormat('ddMMyyyy')\<close> and the record \<open>ahora\<close> holds the three
  renderings of the current instant that the function reads.
\<close>

datatype error = Clave_base_invalida nat string

record ahora =
  ddMMyyyy :: string
  HHmmss :: string
  SSS :: string

text \<open>The class \<open>[0-9]\<close> of the cleaning regexp \<open>/\\D/g\<close>, by character code.\<close>

definition is_digit :: "char \<Rightarrow> bool" where
  "is_digit c = (48 \<le> (of_char c :: nat) \<and> (of_char c :: nat) \<le> 57)"

text \<open>\<open>parseInt\<close> of a one-character string: the digit's value, or NaN (\<open>None\<close>).\<close>

definition parseInt_char :: "char \<Rightarrow> nat option" where
  "parseInt_char c = (if is_digit c then Some ((of_char c :: nat) - 48) else None)"

definition digit_char :: "nat \<Rightarrow> char" where
  "digit_char d = ''0123456789'' ! (d mod 10)"

text \<open>Decimal rendering of a non-negative integer (number-to-string conversion).\<close>

fun nat_toString :: "nat \<Rightarrow> string" where
  "nat_toString n =
     (if n < 10 then [digit_char n] else nat_toString (n div 10) @ [digit_char (n mod 10)])"

declare nat_toString.simps [simp del]

text \<open>
  The loop of \<open>modulo11\<close> runs \<open>i\<close> from the last character down to the first, carrying
  \<open>suma\<close> and \<open>factor\<close>; here it consumes the reversed string. \<open>None\<close> is NaN.
\<close>

fun modulo11_loop :: "string \<Rightarrow> nat option \<Rightarrow> nat \<Rightarrow> nat option" where
  "modulo11_loop [] suma factor = suma"
| "modulo11_loop (c # cs) suma factor =
     modulo11_loop cs
       (case suma of None \<Rightarrow> None
        | Some s \<Rightarrow> (case parseInt_char c of None \<Rightarrow> None | Some d \<Rightarrow> Some (s + d * factor)))
       (if factor = 7 then 2 else factor + 1)"

definition modulo11 :: "string \<Rightarrow> nat option" where
  "modulo11 cadena =
     (case modulo11_loop (rev cadena) (Some 0) 2 of
        None \<Rightarrow> None
      | Some suma \<Rightarrow>
          (let verificador = 11 - (suma mod 11)
           in if verificador = 11 then Some 0
              else if verificador = 10 then Some 1
              else Some verificador))"

definition limpiar :: "string \<Rightarrow> string" where
  "limpiar val = filter is_digit val"

definition padStart :: "nat \<Rightarrow> char \<Rightarrow> string \<Rightarrow> string" where
  "padStart n c s = replicate (n - length s) c @ s"

definition substring0 :: "nat \<Rightarrow> string \<Rightarrow> string" where
  "substring0 n s = take n s"

text \<open>Steps 1 and 2 of the builder: the date and the numeric code that are used.\<close>

definition finalFecha :: "(string \<Rightarrow> string) \<Rightarrow> ahora \<Rightarrow> string option \<Rightarrow> string" where
  "finalFecha fromISO now fecha =
     (case fecha of
        None \<Rightarrow> ddMMyyyy now
      | Some f \<Rightarrow> if f \<noteq> [] \<and> f \<noteq> ''now'' then fromISO f else ddMMyyyy now)"

definition codigoFinal :: "ahora \<Rightarrow> string option \<Rightarrow> string" where
  "codigoFinal now codigoNumerico =
     (case codigoNumerico of
        None \<Rightarrow> HHmmss now @ substring0 2 (SSS now)
      | Some c \<Rightarrow> if c = [] then HHmmss now @ substring0 2 (SSS now) else c)"

text \<open>Step 3: the 48-digit base, before the length test.\<close>

definition clave48 ::
  "(string \<Rightarrow> string) \<Rightarrow> ahora \<Rightarrow> string option \<Rightarrow> string \<Rightarrow> string \<Rightarrow> string \<Rightarrow> string
     \<Rightarrow> string \<Rightarrow> string option \<Rightarrow> string" where
  "clave48 fromISO now fecha tipoComprobante ruc ambiente serie secuencial codigoNumerico =
     (let p1_fecha = substring0 8 (limpiar (finalFecha fromISO now fecha));
          p2_tipo = substring0 2 (padStart 2 CHR ''0'' (limpiar tipoComprobante));
          p3_ruc = substring0 13 (limpiar ruc);
          p4_amb = substring0 1 (limpiar ambiente);
          p5_serie = substring0 6 (padStart 6 CHR ''0'' (limpiar serie));
          p6_sec = substring0 9 (padStart 9 CHR ''0'' (limpiar secuencial));
          p7_cod = substring0 8 (padStart 8 CHR ''0'' (limpiar (codigoFinal now codigoNumerico)));
          p8_emi = ''1''
      in p1_fecha @ p2_tipo @ p3_ruc @ p4_amb @ p5_serie @ p6_sec @ p7_cod @ p8_emi)"

definition generarClaveAcceso ::
  "(string \<Rightarrow> string) \<Rightarrow> ahora \<Rightarrow> string option \<Rightarrow> string \<Rightarrow> string \<Rightarrow> string \<Rightarrow> string
     \<Rightarrow> string \<Rightarrow> string option \<Rightarrow> error + string" where
  "generarClaveAcceso fromISO now fecha tipoComprobante ruc ambiente serie secuencial codigoNumerico =
     (let base = clave48 fromISO now fecha tipoComprobante ruc ambiente serie secuencial
                   codigoNumerico
      in if length base \<noteq> 48 then Inl (Clave_base_invalida (length base) base)
         else (case modulo11 base of
                 None \<Rightarrow> Inr (base @ ''NaN'')
               | Some digitoVerificador \<Rightarrow> Inr (base @ nat_toString digitoVerificador)))"

text \<open>
  The check digit in the specification's words: the digits are numbered from the right,
  the weight of position \<open>i\<close> cycles through 2, 3, 4, 5, 6, 7, and
  \<open>v = 11 - (sum mod 11)\<close> with 11 mapped to 0 and 10 mapped to 1.
\<close>

definition spec_weighted_sum :: "nat list \<Rightarrow> nat" where
  "spec_weighted_sum ds = (\<Sum>i < length ds. rev ds ! i * (2 + i mod 6))"

definition spec_check_digit :: "nat list \<Rightarrow> nat" where
  "spec_check_digit ds =
     (let v = 11 - spec_weighted_sum ds mod 11
      in if v = 11 then 0 else if v = 10 then 1 else v)"

definition digit_value :: "char \<Rightarrow> nat" where
  "digit_value c = (case parseInt_char c of None \<Rightarrow> 0 | Some d \<Rightarrow> d)"

section \<open>Tax calculator (calculadoraSri.js, required as utils/calculadoraSri)\<close>

text \<open>
  JavaScript numbers are modelled as exact rationals: every field of a line item is taken
  after \<open>parseFloat\<close>, as a finite number (a field that parses to NaN is excluded by the
  type), and \<open>+\<close>, \<open>-\<close>, \<open>*\<close>, \<open>/\<close> are exact, where an IEEE double would round in the
  last binary place. An absent field is \<open>None\<close>. The pass-through fields
  \<open>codigoPrincipal\<close> and \<open>descripcion\<close> are left out.
\<close>

record item =
  cantidad :: rat
  precioUnitario :: "rat option"
  precio :: "rat option"
  descuento :: "rat option"
  tarifaIva :: "rat option"
  impuestos :: "rat list"

text \<open>\<open>x || d\<close> on an optional number: \<open>undefined\<close> and \<open>0\<close> are falsy.\<close>

definition js_or :: "rat option \<Rightarrow> rat \<Rightarrow> rat" where
  "js_or x d = (case x of None \<Rightarrow> d | Some v \<Rightarrow> if v = 0 then d else v)"

text \<open>
  \<open>x.toFixed(2)\<close>, as the number its decimal string denotes: the sign is split off and
  the integer \<open>n\<close> with \<open>n / 100\<close> closest to \<open>|x|\<close> is chosen, the larger one on a tie.
\<close>

definition toFixed2 :: "rat \<Rightarrow> rat" where
  "toFixed2 x =
     (if x < 0 then - (of_int \<lfloor>- x * 100 + 1 / 2\<rfloor> / 100)
      else of_int \<lfloor>x * 100 + 1 / 2\<rfloor> / 100)"

definition CODIGOS_IVA :: "(rat \<times> string \<times> string) list" where
  "CODIGOS_IVA = [(0, ''2'', ''0''), (12, ''2'', ''2''), (15, ''2'', ''4''), (5, ''2'', ''5'')]"

record impuesto_acumulado =
  codigo :: string
  codigoPorcentaje :: string
  baseImponible :: rat
  valor :: rat
  tarifa :: rat

record detalle_impuesto =
  imp_codigo :: string
  imp_codigoPorcentaje :: string
  imp_tarifa :: rat
  imp_baseImponible :: rat
  imp_valor :: rat

record detalle =
  det_cantidad :: rat
  det_precioUnitario :: rat
  det_descuento :: rat
  det_precioTotalSinImpuesto :: rat
  det_impuesto :: detalle_impuesto

record total_impuesto =
  tot_codigo :: string
  tot_codigoPorcentaje :: string
  tot_baseImponible :: rat
  tot_valor :: rat

record totales =
  totalSinImpuestos :: rat
  totalDescuento :: rat
  importeTotal :: rat
  totalIva :: rat
  subtotal_0 :: rat
  subtotal_iva :: rat

record calculos =
  detallesXml :: "detalle list"
  totalConImpuestosXml :: "total_impuesto list"
  totales :: totales

text \<open>The three variables the \<open>items.map\<close> callback mutates.\<close>

record acumulador =
  acc_totalSinImpuestos :: rat
  acc_totalDescuento :: rat
  impuestosAcumulados :: "(rat \<times> impuesto_acumulado) list"

definition precio_de :: "item \<Rightarrow> rat" where
  "precio_de i = js_or (precioUnitario i) (js_or (precio i) 0)"

definition descuento_de :: "item \<Rightarrow> rat" where
  "descuento_de i = js_or (descuento i) 0"

definition precioTotalSinImpuesto :: "item \<Rightarrow> rat" where
  "precioTotalSinImpuesto i = cantidad i * precio_de i - descuento_de i"

definition tarifaRaw :: "item \<Rightarrow> rat" where
  "tarifaRaw i =
     (case tarifaIva i of
        Some t \<Rightarrow> t
      | None \<Rightarrow> (case impuestos i of [] \<Rightarrow> 0 | t # _ \<Rightarrow> t))"

definition tarifa_de :: "item \<Rightarrow> rat" where
  "tarifa_de i = (if tarifaRaw i > 0 \<and> tarifaRaw i < 1 then tarifaRaw i * 100 else tarifaRaw i)"

text \<open>\<open>CODIGOS_IVA[tarifa] || CODIGOS_IVA[0]\<close>.\<close>

definition infoSri :: "rat \<Rightarrow> string \<times> string" where
  "infoSri t =
     (case map_of CODIGOS_IVA t of
        Some c \<Rightarrow> c
      | None \<Rightarrow> (case map_of CODIGOS_IVA 0 of Some c \<Rightarrow> c | None \<Rightarrow> ([], [])))"

definition valorImpuesto :: "item \<Rightarrow> rat" where
  "valorImpuesto i = precioTotalSinImpuesto i * (tarifa_de i / 100)"

text \<open>
  The object \<open>impuestosAcumulados\<close> is an association list in insertion order, keyed by
  the tariff (the property key is the tariff's string, one string per number).
\<close>

fun actualizar ::
  "rat \<Rightarrow> (impuesto_acumulado \<Rightarrow> impuesto_acumulado) \<Rightarrow> (rat \<times> impuesto_acumulado) list
     \<Rightarrow> (rat \<times> impuesto_acumulado) list" where
  "actualizar k f [] = []"
| "actualizar k f ((k', v) # m) =
     (if k = k' then (k', f v) # m else (k', v) # actualizar k f m)"

definition acumular ::
  "item \<Rightarrow> (rat \<times> impuesto_acumulado) list \<Rightarrow> (rat \<times> impuesto_acumulado) list" where
  "acumular i m =
     (let t = tarifa_de i;
          m1 = (if map_of m t = None
                then m @ [(t, \<lparr>codigo = fst (infoSri t), codigoPorcentaje = snd (infoSri t),
                              baseImponible = 0, valor = 0, tarifa = t\<rparr>)]
                else m)
      in actualizar t
           (\<lambda>e. e\<lparr>baseImponible := baseImponible e + precioTotalSinImpuesto i,
                   valor := valor e + valorImpuesto i\<rparr>) m1)"

definition procesar_item :: "acumulador \<Rightarrow> item \<Rightarrow> acumulador" where
  "procesar_item st i =
     \<lparr>acc_totalSinImpuestos = acc_totalSinImpuestos st + precioTotalSinImpuesto i,
      acc_totalDescuento = acc_totalDescuento st + descuento_de i,
      impuestosAcumulados = acumular i (impuestosAcumulados st)\<rparr>"

definition detalle_de :: "item \<Rightarrow> detalle" where
  "detalle_de i =
     \<lparr>det_cantidad = toFixed2 (cantidad i),
      det_precioUnitario = toFixed2 (precio_de i),
      det_descuento = toFixed2 (descuento_de i),
      det_precioTotalSinImpuesto = toFixed2 (precioTotalSinImpuesto i),
      det_impuesto =
        \<lparr>imp_codigo = fst (infoSri (tarifa_de i)),
         imp_codigoPorcentaje = snd (infoSri (tarifa_de i)),
         imp_tarifa = tarifa_de i,
         imp_baseImponible = toFixed2 (precioTotalSinImpuesto i),
         imp_valor = toFixed2 (valorImpuesto i)\<rparr>\<rparr>"

text \<open>
  \<open>Object.values\<close>: the properties whose key is an array index (a non-negative integer
  below \<open>2^32 - 1\<close>) come first, in ascending order, then the others in insertion order.
\<close>

definition is_array_index :: "rat \<Rightarrow> bool" where
  "is_array_index k = (k = of_int \<lfloor>k\<rfloor> \<and> 0 \<le> k \<and> k < 4294967295)"

definition Object_values :: "(rat \<times> 'a) list \<Rightarrow> 'a list" where
  "Object_values m =
     map snd (sort_key fst (filter (\<lambda>e. is_array_index (fst e)) m)
              @ filter (\<lambda>e. \<not> is_array_index (fst e)) m)"

definition estado_final :: "item list \<Rightarrow> acumulador" where
  "estado_final items =
     foldl procesar_item
       \<lparr>acc_totalSinImpuestos = 0, acc_totalDescuento = 0, impuestosAcumulados = []\<rparr> items"

text \<open>\<open>Object.values(impuestosAcumulados)\<close> after the loop.\<close>

definition impuestos_finales :: "item list \<Rightarrow> impuesto_acumulado list" where
  "impuestos_finales items = Object_values (impuestosAcumulados (estado_final items))"

definition totalIvaGeneral :: "item list \<Rightarrow> rat" where
  "totalIvaGeneral items = foldl (\<lambda>sum imp. sum + valor imp) 0 (impuestos_finales items)"

text \<open>The \<open>forEach\<close> that splits the bases into \<open>(subtotal_0, subtotal_iva)\<close>.\<close>

definition subtotales :: "item list \<Rightarrow> rat \<times> rat" where
  "subtotales items =
     foldl (\<lambda>(s0, siva) imp.
              if tarifa imp = 0 then (s0 + baseImponible imp, siva)
              else (s0, siva + baseImponible imp))
       (0, 0) (impuestos_finales items)"

definition calcularTotalesEImpuestos :: "item list \<Rightarrow> calculos" where
  "calcularTotalesEImpuestos items =
     (let st = estado_final items;
          importe = acc_totalSinImpuestos st + totalIvaGeneral items
      in \<lparr>detallesXml = map detalle_de items,
          totalConImpuestosXml =
            map (\<lambda>imp. \<lparr>tot_codigo = codigo imp, tot_codigoPorcentaje = codigoPorcentaje imp,
                         tot_baseImponible = toFixed2 (baseImponible imp),
                         tot_valor = toFixed2 (valor imp)\<rparr>)
              (impuestos_finales items),
          totales =
            \<lparr>totalSinImpuestos = toFixed2 (acc_totalSinImpuestos st),
             totalDescuento = toFixed2 (acc_totalDescuento st),
             importeTotal = toFixed2 importe,
             totalIva = toFixed2 (totalIvaGeneral items),
             subtotal_0 = toFixed2 (fst (subtotales items)),
             subtotal_iva = toFixed2 (snd (subtotales items))\<rparr>\<rparr>)"

section \<open>Password encryption (encrypt and decrypt of src/utils/cryptoUtils.js)\<close>














section \<open>Database, object store and webhook\<close>

text \<open>
  The tables the claims read or write, as lists of rows. \<open>estado\<close> is a string, as in
  the table: the authorization job stores states that the authority reports verbatim.
  A point of emission carries the code of its establishment and the issuer that owns it
  (the join of \<open>puntos_emision\<close> with \<open>establecimientos\<close>). The object store is the set of
  (bucket, key) pairs that hold an object; the webhook log is the list of events posted.
\<close>

record invoice =
  inv_id :: nat
  emisor_id :: nat
  punto_emision_id :: nat
  inv_secuencial :: "string option"
  clave_acceso :: string
  estado :: string
  importe_total :: rat
  xml_path :: "string option"
  pdf_path :: "string option"
  mensajes_sri :: "string option"
  fecha_envio_sri :: "nat option"
  fecha_autorizacion :: "string option"
  created_at :: nat

record emisor =
  em_id :: nat
  em_ruc :: string
  em_ambiente :: string
  p12_path :: "string option"

record profile =
  user_uid :: string
  prof_emisor_id :: "nat option"

record punto_emision =
  punto_id :: nat
  punto_codigo :: string
  estab_codigo :: string
  punto_emisor_id :: nat
  secuencial_actual :: nat

record database =
  invoices :: "invoice list"
  emisores :: "emisor list"
  profiles :: "profile list"
  user_credits :: "(nat \<times> int) list"
  puntos_emision :: "punto_emision list"

record notificacion =
  n_user_id :: string
  n_invoice_id :: nat
  n_clave_acceso :: string
  n_estado :: string
  n_mensaje_sri :: "string option"

record world =
  db :: database
  minio :: "(string \<times> string) set"
  webhook :: "notificacion list"

text \<open>\<open>UPDATE invoices SET ... WHERE id = k\<close>.\<close>

definition update_invoice :: "nat \<Rightarrow> (invoice \<Rightarrow> invoice) \<Rightarrow> database \<Rightarrow> database" where
  "update_invoice k f d = d\<lparr>invoices := map (\<lambda>i. if inv_id i = k then f i else i) (invoices d)\<rparr>"

text \<open>\<open>UPDATE user_credits SET balance = balance - 1 WHERE emisor_id = e\<close>.\<close>

definition debitar_credito :: "nat \<Rightarrow> database \<Rightarrow> database" where
  "debitar_credito e d =
     d\<lparr>user_credits := map (\<lambda>(k, balance). if k = e then (k, balance - 1) else (k, balance))
                           (user_credits d)\<rparr>"

definition balance_de :: "database \<Rightarrow> nat \<Rightarrow> int option" where
  "balance_de d e = map_of (user_credits d) e"

text \<open>
  Modelled from the spec: the database function \<open>generar_secuencial(point_id)\<close> is not
  among the sources; the specification gives it as
  \<open>UPDATE ... SET secuencial_actual = secuencial_actual + 1 RETURNING secuencial_actual\<close>
  under the row lock. \<open>None\<close> is the NULL returned for a point that does not exist.
\<close>

definition generar_secuencial :: "nat \<Rightarrow> database \<Rightarrow> nat option \<times> database" where
  "generar_secuencial pid d =
     (case find (\<lambda>p. punto_id p = pid) (puntos_emision d) of
        None \<Rightarrow> (None, d)
      | Some p \<Rightarrow>
          (Some (secuencial_actual p + 1),
           d\<lparr>puntos_emision :=
                map (\<lambda>q. if punto_id q = pid
                          then q\<lparr>secuencial_actual := secuencial_actual q + 1\<rparr> else q)
                  (puntos_emision d)\<rparr>))"

section \<open>Synchronous issuance, POST /integrations/invoice (src/routes/integracion.js)\<close>

text \<open>
  What the request sends (the fields the handler's control flow reads) and what the outside
  world does while it runs: the clock; whether the steps between the access key and the
  first upload succeed (\<open>e_firma_ok\<close>: building the XML, reading and opening the P12, the
  XAdES signature, rendering the PDF); whether each upload succeeds; whether the INSERT and
  the COMMIT succeed (\<open>e_insert_ok\<close>). The XML and the signature themselves are not
  modelled. The SELECTs and the sequential function are taken to succeed.
\<close>

record factura_data =
  establecimiento :: "string option"
  punto_emision :: "string option"
  fd_items :: "item list"

record entorno =
  e_ahora :: ahora
  e_fechaFormatoClave :: string
  e_fromISO :: "string \<Rightarrow> string"
  e_timestamp :: nat
  e_firma_ok :: bool
  e_upload_xml_ok :: bool
  e_upload_pdf_ok :: bool
  e_insert_ok :: bool

datatype respuesta =
    Http402
  | Http500 string
  | Http201 string int string string

text \<open>\<open>s || d\<close> on an optional string: \<open>undefined\<close> and the empty string are falsy.\<close>

definition str_or :: "string option \<Rightarrow> string \<Rightarrow> string" where
  "str_or x d = (case x of None \<Rightarrow> d | Some v \<Rightarrow> if v = [] then d else v)"

text \<open>The first SELECT: the issuer joined with its credit row.\<close>

definition emisor_con_balance :: "database \<Rightarrow> nat \<Rightarrow> (emisor \<times> int) option" where
  "emisor_con_balance d eid =
     (case find (\<lambda>e. em_id e = eid) (emisores d) of
        None \<Rightarrow> None
      | Some e \<Rightarrow> (case balance_de d eid of None \<Rightarrow> None | Some b \<Rightarrow> Some (e, b)))"

definition buscar_punto :: "database \<Rightarrow> string \<Rightarrow> string \<Rightarrow> nat \<Rightarrow> punto_emision option" where
  "buscar_punto d estab pto eid =
     find (\<lambda>p. estab_codigo p = estab \<and> punto_codigo p = pto \<and> punto_emisor_id p = eid)
       (puntos_emision d)"

definition nuevo_id :: "database \<Rightarrow> nat" where
  "nuevo_id d = Suc (fold max (map inv_id (invoices d)) 0)"

text \<open>
  The handler. Every \<open>throw\<close> ends in the \<open>catch\<close> block, which rolls the transaction back
  (the database of the result is the one of the start) and answers 500; the object store
  is outside the transaction and keeps what was uploaded. The 402 answer returns from
  inside the \<open>try\<close> without a write. On success the INSERT and the advanced sequential are
  committed.
\<close>

definition post_invoice :: "entorno \<Rightarrow> nat \<Rightarrow> factura_data \<Rightarrow> world \<Rightarrow> respuesta \<times> world" where
  "post_invoice env emisorId facturaData w =
     (case emisor_con_balance (db w) emisorId of
        None \<Rightarrow> (Http402, w)
      | Some (emisor, balance) \<Rightarrow>
          if balance \<le> 0 then (Http402, w)
          else
            let balanceRestante = balance - 1 in
            (case buscar_punto (db w) (str_or (establecimiento facturaData) ''001'')
                    (str_or (punto_emision facturaData) ''100'') emisorId of
               None \<Rightarrow> (Http500 ''Establecimiento o Punto de Emision no valido.'', w)
             | Some puntoEmision \<Rightarrow>
                 (case generar_secuencial (punto_id puntoEmision) (db w) of
                    (None, _) \<Rightarrow> (Http500 ''Secuencial nulo'', w)
                  | (Some secuencialRaw, db1) \<Rightarrow>
                      if secuencialRaw = 0 then (Http500 ''Secuencial nulo'', w)
                      else
                        let secuencial = padStart 9 CHR ''0'' (nat_toString secuencialRaw);
                            calculos = calcularTotalesEImpuestos (fd_items facturaData)
                        in
                        (case generarClaveAcceso (e_fromISO env) (e_ahora env)
                                (Some (e_fechaFormatoClave env)) ''01'' (em_ruc emisor)
                                (em_ambiente emisor)
                                (estab_codigo puntoEmision @ punto_codigo puntoEmision)
                                secuencial None of
                           Inl _ \<Rightarrow> (Http500 ''Clave base invalida'', w)
                         | Inr claveAcceso \<Rightarrow>
                             if p12_path emisor = None \<or> \<not> e_firma_ok env
                             then (Http500 ''firma'', w)
                             else
                               let xmlPathRelative = em_ruc emisor @ ''/'' @ claveAcceso @ ''.xml'';
                                   pdfPathRelative = em_ruc emisor @ ''/'' @ claveAcceso @ ''.pdf''
                               in
                               if \<not> e_upload_xml_ok env then (Http500 ''upload xml'', w)
                               else
                                 let m1 = insert (''invoices'', xmlPathRelative) (minio w) in
                                 if \<not> e_upload_pdf_ok env
                                 then (Http500 ''upload pdf'', w\<lparr>minio := m1\<rparr>)
                                 else
                                   let m2 = insert (''invoices'', pdfPathRelative) m1 in
                                   if \<not> e_insert_ok env
                                   then (Http500 ''insert'', w\<lparr>minio := m2\<rparr>)
                                   else
                                     (Http201 claveAcceso balanceRestante
                                        (''invoices/'' @ xmlPathRelative)
                                        (''invoices/'' @ pdfPathRelative),
                                      w\<lparr>db := db1\<lparr>invoices := invoices db1 @
                                             [\<lparr>inv_id = nuevo_id db1, emisor_id = emisorId,
                                               punto_emision_id = punto_id puntoEmision,
                                               inv_secuencial = Some secuencial,
                                               clave_acceso = claveAcceso,
                                               estado = ''FIRMADO'',
                                               importe_total = importeTotal (totales calculos),
                                               xml_path = Some (''invoices/'' @ xmlPathRelative),
                                               pdf_path = Some (''invoices/'' @ pdfPathRelative),
                                               mensajes_sri = None, fecha_envio_sri = None,
                                               fecha_autorizacion = None,
                                               created_at = e_timestamp env\<rparr>]\<rparr>,
                                        minio := m2\<rparr>)))))"

section \<open>Worker signing path, firmarYEnviarLote (services/invoiceService)\<close>

text \<open>
  The environment of the signing job adds the numeric code it passes to the key builder
  (the time of day followed by a random two-digit number) and whether \<open>deleteFile\<close> succeeds
  on a path; \<open>e_firma_ok\<close> covers every step before the first upload that has no effect of
  its own (reading the P12, building and signing the XML, rendering the PDF). The invoice
  row exists beforehand, in state PENDIENTE with a provisional key. The function rethrows
  what it catches: \<open>Inl\<close> is the error, \<open>Inr\<close> the access key.
\<close>

record entorno_firma = entorno +
  e_codigoNumerico :: string
  e_delete_ok :: "string \<Rightarrow> bool"

text \<open>
  The cleanup loop of the \<open>catch\<close> block: \<open>deleteFile\<close> on every path of
  \<open>archivosSubidos\<close>, a failure being logged and skipped.
\<close>

definition limpieza :: "(string \<Rightarrow> bool) \<Rightarrow> string list \<Rightarrow> (string \<times> string) set \<Rightarrow> (string \<times> string) set" where
  "limpieza delete_ok archivosSubidos m =
     fold (\<lambda>path m'. if delete_ok path then m' - {(''invoices'', path)} else m') archivosSubidos m"

definition firmarYEnviarLote ::
  "'a entorno_firma_scheme \<Rightarrow> nat \<Rightarrow> emisor \<Rightarrow> punto_emision \<Rightarrow> world \<Rightarrow> (string + string) \<times> world" where
  "firmarYEnviarLote env facturaId emisor puntoEmisionDB w =
     (if p12_path emisor = None then (Inl ''p12'', w)
      else
        (case generar_secuencial (punto_id puntoEmisionDB) (db w) of
           (None, _) \<Rightarrow> (Inl ''secuencial'', w)
         | (Some n, db1) \<Rightarrow>
             let secuencialStr = padStart 9 CHR ''0'' (nat_toString n) in
             (case generarClaveAcceso (e_fromISO env) (e_ahora env)
                     (Some (e_fechaFormatoClave env)) ''01'' (em_ruc emisor) (em_ambiente emisor)
                     (estab_codigo puntoEmisionDB @ punto_codigo puntoEmisionDB)
                     secuencialStr (Some (e_codigoNumerico env)) of
                Inl _ \<Rightarrow> (Inl ''Clave base invalida'', w)
              | Inr claveAcceso \<Rightarrow>
                  if \<not> e_firma_ok env then (Inl ''firma'', w)
                  else
                    let xmlStoragePath = ''signed/'' @ em_ruc emisor @ ''/'' @ claveAcceso @ ''.xml'';
                        pdfStoragePath = ''signed/'' @ em_ruc emisor @ ''/'' @ claveAcceso @ ''.pdf''
                    in
                    if \<not> e_upload_xml_ok env
                    then (Inl ''upload xml'', w\<lparr>minio := limpieza (e_delete_ok env) [] (minio w)\<rparr>)
                    else
                      let m1 = insert (''invoices'', xmlStoragePath) (minio w) in
                      if \<not> e_upload_pdf_ok env
                      then (Inl ''upload pdf'',
                            w\<lparr>minio := limpieza (e_delete_ok env) [xmlStoragePath] m1\<rparr>)
                      else
                        let m2 = insert (''invoices'', pdfStoragePath) m1 in
                        if \<not> e_insert_ok env
                        then (Inl ''update'',
                              w\<lparr>minio := limpieza (e_delete_ok env)
                                            [xmlStoragePath, pdfStoragePath] m2\<rparr>)
                        else
                          (Inr claveAcceso,
                           w\<lparr>db := update_invoice facturaId
                                     (\<lambda>i. i\<lparr>clave_acceso := claveAcceso, estado := ''FIRMADO'',
                                             xml_path := Some (''invoices/'' @ xmlStoragePath),
                                             pdf_path := Some (''invoices/'' @ pdfStoragePath)\<rparr>)
                                     db1,
                             minio := m2\<rparr>))))"

section \<open>Settlement worker (src/workers/authWorker.js)\<close>

text \<open>
  A row of the worker's SELECT (the invoice joined with its issuer and the issuer's
  profiles), the authority's answers, and what the outside world does during one tick.
  \<open>Recepcion_falla\<close> and \<open>Autorizacion_falla\<close> stand for everything that throws before the
  answer is read (timeout, HTTP error, an envelope without the expected elements). The
  statements sent to the database are taken to succeed; a webhook event is logged when
  it is posted, whether or not the receiver accepts it.
\<close>

record fila =
  f_id :: nat
  f_xml_path :: "string option"
  f_clave_acceso :: string
  f_ambiente :: string
  f_ruc :: string
  f_emisor_db_id :: nat
  f_user_uid :: string

datatype respuesta_recepcion = Recepcion_falla | Recepcion string string

record autorizacion =
  aut_estado :: string
  comprobante :: string
  fechaAutorizacion :: string
  mensajes :: string

datatype respuesta_autorizacion = Autorizacion_falla | Autorizacion "int option" "autorizacion list"

record sri =
  recepcion :: "fila \<Rightarrow> respuesta_recepcion"
  autorizacion_de :: "fila \<Rightarrow> respuesta_autorizacion"
  descarga_ok :: "fila \<Rightarrow> bool"
  upload_ok :: "fila \<Rightarrow> bool"
  now_ts :: nat
  webhookUrl :: bool

text \<open>
  \<open>SELECT ... FROM invoices i JOIN emisores e ... JOIN profiles p ... WHERE i.estado = ?
  ORDER BY i.created_at ASC LIMIT 15\<close>: \<open>filas_de\<close> is the join of one invoice with its
  issuer and the issuer's profiles.
\<close>

definition filas_de :: "database \<Rightarrow> invoice \<Rightarrow> fila list" where
  "filas_de d i =
     concat (map (\<lambda>e.
       map (\<lambda>p. \<lparr>f_id = inv_id i, f_xml_path = xml_path i, f_clave_acceso = clave_acceso i,
                  f_ambiente = em_ambiente e, f_ruc = em_ruc e, f_emisor_db_id = em_id e,
                  f_user_uid = user_uid p\<rparr>)
         (filter (\<lambda>p. prof_emisor_id p = Some (em_id e)) (profiles d)))
       (filter (\<lambda>e. em_id e = emisor_id i) (emisores d)))"

definition seleccionar :: "string \<Rightarrow> database \<Rightarrow> fila list" where
  "seleccionar est d =
     take 15 (concat (map (filas_de d)
       (sort_key created_at (filter (\<lambda>i. estado i = est) (invoices d)))))"

definition notificarCambioEstado :: "sri \<Rightarrow> fila \<Rightarrow> string \<Rightarrow> string option \<Rightarrow> world \<Rightarrow> world" where
  "notificarCambioEstado s factura est detalle w =
     (if \<not> webhookUrl s then w
      else w\<lparr>webhook := webhook w @
               [\<lparr>n_user_id = f_user_uid factura, n_invoice_id = f_id factura,
                 n_clave_acceso = f_clave_acceso factura, n_estado = est,
                 n_mensaje_sri = detalle\<rparr>]\<rparr>)"

text \<open>The body of the loop of the submit job, for one selected row.\<close>

definition enviar_factura :: "sri \<Rightarrow> fila \<Rightarrow> world \<Rightarrow> world" where
  "enviar_factura s factura w =
     (if f_xml_path factura = None \<or> \<not> descarga_ok s factura then w
      else
        (case recepcion s factura of
           Recepcion_falla \<Rightarrow> w
         | Recepcion est errorMsg \<Rightarrow>
             if est = ''RECIBIDA''
             then notificarCambioEstado s factura ''RECIBIDA'' None
                    (w\<lparr>db := update_invoice (f_id factura)
                               (\<lambda>i. i\<lparr>estado := ''RECIBIDA'', fecha_envio_sri := Some (now_ts s)\<rparr>)
                               (db w)\<rparr>)
             else notificarCambioEstado s factura ''DEVUELTA'' (Some errorMsg)
                    (w\<lparr>db := update_invoice (f_id factura)
                               (\<lambda>i. i\<lparr>estado := ''DEVUELTA'', mensajes_sri := Some errorMsg,
                                       fecha_envio_sri := Some (now_ts s)\<rparr>)
                               (db w)\<rparr>)))"

definition enviarFacturasAlSRI :: "sri \<Rightarrow> world \<Rightarrow> world" where
  "enviarFacturasAlSRI s w =
     foldl (\<lambda>w' factura. enviar_factura s factura w') w (seleccionar ''FIRMADO'' (db w))"

text \<open>
  The body of the loop of the authorization job. \<open>numeroComprobantes\<close> is the result of
  \<open>parseInt\<close> (\<open>None\<close> is NaN); an empty list of authorizations makes the read of
  \<open>autorizacion.estado\<close> throw, which the \<open>catch\<close> of the row absorbs.
\<close>

definition autorizar_factura :: "sri \<Rightarrow> fila \<Rightarrow> world \<Rightarrow> world" where
  "autorizar_factura s factura w =
     (case autorizacion_de s factura of
        Autorizacion_falla \<Rightarrow> w
      | Autorizacion numeroComprobantes autorizaciones \<Rightarrow>
          (case numeroComprobantes of
             None \<Rightarrow> w
           | Some n \<Rightarrow>
               if n > 0 then
                 (case autorizaciones of
                    [] \<Rightarrow> w
                  | a # _ \<Rightarrow>
                      if aut_estado a = ''AUTORIZADO'' then
                        if \<not> upload_ok s factura then w
                        else
                          let xmlAuthPath = ''authorized/'' @ f_ruc factura @ ''/''
                                              @ f_clave_acceso factura @ ''.xml'';
                              w1 = w\<lparr>minio := insert (''invoices'', xmlAuthPath) (minio w)\<rparr>;
                              w2 = w1\<lparr>db := update_invoice (f_id factura)
                                     (\<lambda>i. i\<lparr>estado := ''AUTORIZADO'',
                                             xml_path := Some (''invoices/'' @ xmlAuthPath),
                                             fecha_autorizacion := Some (fechaAutorizacion a)\<rparr>)
                                     (db w1)\<rparr>;
                              w3 = w2\<lparr>db := debitar_credito (f_emisor_db_id factura) (db w2)\<rparr>
                          in notificarCambioEstado s factura ''AUTORIZADO'' None w3
                      else
                        let estadoFinal = (if aut_estado a = ''NO AUTORIZADO'' then ''RECHAZADO''
                                           else aut_estado a);
                            msg = mensajes a
                        in notificarCambioEstado s factura estadoFinal (Some msg)
                             (w\<lparr>db := update_invoice (f_id factura)
                                        (\<lambda>i. i\<lparr>estado := estadoFinal, mensajes_sri := Some msg\<rparr>)
                                        (db w)\<rparr>))
               else w))"

definition autorizarFacturasSRI :: "sri \<Rightarrow> world \<Rightarrow> world" where
  "autorizarFacturasSRI s w =
     foldl (\<lambda>w' factura. autorizar_factura s factura w') w (seleccionar ''RECIBIDA'' (db w))"

text \<open>A run of the scheduler: ticks of the two jobs, one after another.\<close>

datatype tick = Envio sri | Autorizar sri

fun ejecutar :: "tick list \<Rightarrow> world \<Rightarrow> world" where
  "ejecutar [] w = w"
| "ejecutar (Envio s # ts) w = ejecutar ts (enviarFacturasAlSRI s w)"
| "ejecutar (Autorizar s # ts) w = ejecutar ts (autorizarFacturasSRI s w)"


text \<open>
  The worlds a run passes through, one after every row that a tick processes, in order.
\<close>

fun pasos :: "(fila \<Rightarrow> world \<Rightarrow> world) \<Rightarrow> fila list \<Rightarrow> world \<Rightarrow> world list" where
  "pasos paso [] w = []"
| "pasos paso (f # fs) w = paso f w # pasos paso fs (paso f w)"






section \<open>A concrete issuer\<close>

text \<open>
  One issuer with one credit, one point of emission 001-100 and no invoice; a request of
  one line of 100 at 15%; an environment in which every external step succeeds; an
  authority that receives and authorizes every invoice.
\<close>

definition mundo_inicial :: world where
  "mundo_inicial =
     \<lparr>db = \<lparr>invoices = [],
            emisores = [\<lparr>em_id = 1, em_ruc = ''1790011674001'', em_ambiente = ''1'',
                         p12_path = Some ''certificates/1790011674001/certificate_1.p12''\<rparr>],
            profiles = [\<lparr>user_uid = ''u1'', prof_emisor_id = Some 1\<rparr>],
            user_credits = [(1, 1)],
            puntos_emision = [\<lparr>punto_id = 7, punto_codigo = ''100'', estab_codigo = ''001'',
                               punto_emisor_id = 1, secuencial_actual = 0\<rparr>]\<rparr>,
      minio = {}, webhook = []\<rparr>"

definition entorno_ok :: entorno where
  "entorno_ok =
     \<lparr>e_ahora = \<lparr>ddMMyyyy = ''02112026'', HHmmss = ''101500'', SSS = ''123''\<rparr>,
      e_fechaFormatoClave = ''2026-11-02'', e_fromISO = (\<lambda>_. ''02112026''), e_timestamp = 100,
      e_firma_ok = True, e_upload_xml_ok = True, e_upload_pdf_ok = True, e_insert_ok = True\<rparr>"

definition factura_100 :: factura_data where
  "factura_100 =
     \<lparr>establecimiento = None, punto_emision = None,
      fd_items = [\<lparr>cantidad = 1, precioUnitario = Some 100, precio = None, descuento = None,
                   tarifaIva = Some 15, impuestos = []\<rparr>]\<rparr>"

definition sri_autoriza :: sri where
  "sri_autoriza =
     \<lparr>recepcion = (\<lambda>_. Recepcion ''RECIBIDA'' []),
      autorizacion_de = (\<lambda>_. Autorizacion (Some 1)
         [\<lparr>aut_estado = ''AUTORIZADO'', comprobante = ''<autorizacion/>'',
           fechaAutorizacion = ''2026-11-02T10:16:00-05:00'', mensajes = []\<rparr>]),
      descarga_ok = (\<lambda>_. True), upload_ok = (\<lambda>_. True), now_ts = 200, webhookUrl = True\<rparr>"

text \<open>
  The same issuer after two issuances, after the submit tick that follows, and an authority
  that answers the authorization query with \<open>numeroComprobantes = 0\<close>.
\<close>

definition mundo_firmado :: world where
  "mundo_firmado =
     snd (post_invoice entorno_ok 1 factura_100
            (snd (post_invoice entorno_ok 1 factura_100 mundo_inicial)))"

definition mundo_recibido :: world where
  "mundo_recibido = enviarFacturasAlSRI sri_autoriza mundo_firmado"

definition sri_sin_comprobantes :: sri where
  "sri_sin_comprobantes =
     \<lparr>recepcion = (\<lambda>_. Recepcion ''RECIBIDA'' []),
      autorizacion_de = (\<lambda>_. Autorizacion (Some 0) []),
      descarga_ok = (\<lambda>_. True), upload_ok = (\<lambda>_. True), now_ts = 300, webhookUrl = True\<rparr>"

section \<open>Properties of the access-key builder\<close>

lemma parseInt_char_digit: "is_digit c \<Longrightarrow> parseInt_char c = Some (digit_value c)"
  by (simp add: parseInt_char_def digit_value_def)

lemma factor_step: "(if 2 + k mod 6 = (7::nat) then 2 else 2 + k mod 6 + 1) = 2 + Suc k mod 6"
  by (simp add: mod_Suc)

lemma modulo11_loop_digits:
  "\<forall>c \<in> set cs. is_digit c \<Longrightarrow>
   modulo11_loop cs (Some s) (2 + k mod 6) =
     Some (s + (\<Sum>i < length cs. digit_value (cs ! i) * (2 + (k + i) mod 6)))"
proof (induction cs arbitrary: s k)
  case Nil
  then show ?case by simp
next
  case (Cons c cs)
  have d: "parseInt_char c = Some (digit_value c)"
    using Cons.prems by (simp add: parseInt_char_digit)
  have rest: "\<forall>c \<in> set cs. is_digit c" using Cons.prems by simp
  have "modulo11_loop (c # cs) (Some s) (2 + k mod 6) =
        modulo11_loop cs (Some (s + digit_value c * (2 + k mod 6))) (2 + Suc k mod 6)"
    by (simp only: modulo11_loop.simps d option.case factor_step)
  also have "\<dots> = Some (s + digit_value c * (2 + k mod 6) +
                 (\<Sum>i < length cs. digit_value (cs ! i) * (2 + (Suc k + i) mod 6)))"
    by (rule Cons.IH [OF rest])
  also have "\<dots> = Some (s + (\<Sum>i < length (c # cs). digit_value ((c # cs) ! i) * (2 + (k + i) mod 6)))"
    by (simp only: length_Cons sum.lessThan_Suc_shift nth_Cons_0 nth_Cons_Suc add_Suc_right
          add_Suc add_0_right add.assoc)
  finally show ?case .
qed

lemma spec_weighted_sum_chars:
  "spec_weighted_sum (map digit_value s) =
     (\<Sum>i < length s. digit_value (rev s ! i) * (2 + i mod 6))"
  unfolding spec_weighted_sum_def
  by (rule sum.cong) (simp_all add: rev_map)

lemma modulo11_digits:
  assumes "\<forall>c \<in> set s. is_digit c"
  shows "modulo11 s = Some (spec_check_digit (map digit_value s))"
proof -
  have "modulo11_loop (rev s) (Some 0) (2 + 0 mod 6) =
        Some (0 + (\<Sum>i < length (rev s). digit_value (rev s ! i) * (2 + (0 + i) mod 6)))"
    by (rule modulo11_loop_digits) (use assms in simp)
  then have "modulo11_loop (rev s) (Some 0) 2 = Some (spec_weighted_sum (map digit_value s))"
    by (simp add: spec_weighted_sum_chars)
  then show ?thesis
    by (simp add: modulo11_def spec_check_digit_def Let_def)
qed

lemma spec_check_digit_less: "spec_check_digit ds < 10"
proof -
  have "spec_weighted_sum ds mod 11 < 11" by simp
  then show ?thesis unfolding spec_check_digit_def Let_def by auto
qed

lemma digit_char_props: "d < 10 \<Longrightarrow> is_digit (digit_char d) \<and> parseInt_char (digit_char d) = Some d"
proof -
  assume "d < 10"
  then consider "d = 0" | "d = 1" | "d = 2" | "d = 3" | "d = 4" | "d = 5" | "d = 6" | "d = 7"
    | "d = 8" | "d = 9" by atomize_elim arith
  then show ?thesis
    by cases (simp_all add: digit_char_def is_digit_def parseInt_char_def)
qed

lemma limpiar_digits: "\<forall>c \<in> set (limpiar s). is_digit c"
  by (simp add: limpiar_def)

lemma is_digit_zero: "is_digit CHR ''0''" "is_digit CHR ''1''"
  by (simp_all add: is_digit_def)

lemma pad_take_digits:
  "\<forall>c \<in> set (substring0 n (padStart m CHR ''0'' (limpiar s))). is_digit c"
  by (auto simp: substring0_def padStart_def limpiar_def is_digit_zero dest!: in_set_takeD)

lemma take_digits: "\<forall>c \<in> set (substring0 n (limpiar s)). is_digit c"
  by (auto simp: substring0_def limpiar_def dest!: in_set_takeD)

lemma clave48_digits:
  "\<forall>c \<in> set (clave48 F now fecha tipo ruc amb serie sec cod). is_digit c"
  unfolding clave48_def Let_def
  using pad_take_digits take_digits by (auto simp: is_digit_zero)



lemma nat_toString_digit: "d < 10 \<Longrightarrow> nat_toString d = [digit_char d]"
  by (simp add: nat_toString.simps)

lemma generarClaveAcceso_Inr:
  assumes "generarClaveAcceso F now fecha tipo ruc amb serie sec cod = Inr k"
  shows "length (clave48 F now fecha tipo ruc amb serie sec cod) = 48 \<and>
         k = clave48 F now fecha tipo ruc amb serie sec cod @
             [digit_char (spec_check_digit
                (map digit_value (clave48 F now fecha tipo ruc amb serie sec cod)))]"
proof -
  let ?b = "clave48 F now fecha tipo ruc amb serie sec cod"
  have len: "length ?b = 48"
    using assms by (auto simp: generarClaveAcceso_def Let_def split: if_splits)
  have m: "modulo11 ?b = Some (spec_check_digit (map digit_value ?b))"
    by (rule modulo11_digits) (rule clave48_digits)
  show ?thesis
    using assms len m
    by (simp add: generarClaveAcceso_def Let_def nat_toString_digit spec_check_digit_less)
qed

text \<open>
  C3. Whenever the builder returns a key, the key has exactly 49 characters, all of them
  decimal digits, and its last digit is the modulo-11 check digit of the first 48 as the
  specification words it (weights 2..7 cycling from the right, \<open>v = 11 - (sum mod 11)\<close>,
  11 mapped to 0 and 10 mapped to 1). Whenever the concatenated base does not measure 48,
  the builder raises the error that reports the length and the base.
\<close>

theorem generarClaveAcceso_49_digits_mod11:
  "(generarClaveAcceso F now fecha tipo ruc amb serie sec cod = Inr k \<longrightarrow>
      length k = 49 \<and> (\<forall>c \<in> set k. is_digit c) \<and>
      parseInt_char (last k) = Some (spec_check_digit (map digit_value (take 48 k))))
   \<and> (length (clave48 F now fecha tipo ruc amb serie sec cod) \<noteq> 48 \<longrightarrow>
      generarClaveAcceso F now fecha tipo ruc amb serie sec cod =
        Inl (Clave_base_invalida (length (clave48 F now fecha tipo ruc amb serie sec cod))
               (clave48 F now fecha tipo ruc amb serie sec cod)))"
proof (intro conjI impI)
  let ?b = "clave48 F now fecha tipo ruc amb serie sec cod"
  let ?d = "spec_check_digit (map digit_value ?b)"
  assume "generarClaveAcceso F now fecha tipo ruc amb serie sec cod = Inr k"
  then have len: "length ?b = 48" and k: "k = ?b @ [digit_char ?d]"
    using generarClaveAcceso_Inr by blast+
  have dp: "is_digit (digit_char ?d)" "parseInt_char (digit_char ?d) = Some ?d"
    using digit_char_props [OF spec_check_digit_less] by blast+
  show "length k = 49" by (simp add: k len)
  show "\<forall>c \<in> set k. is_digit c" using clave48_digits [of F now fecha tipo ruc amb serie sec cod] dp(1) by (simp add: k)
  show "parseInt_char (last k) = Some (spec_check_digit (map digit_value (take 48 k)))"
    by (simp add: k len dp(2))
next
  assume "length (clave48 F now fecha tipo ruc amb serie sec cod) \<noteq> 48"
  then show "generarClaveAcceso F now fecha tipo ruc amb serie sec cod =
        Inl (Clave_base_invalida (length (clave48 F now fecha tipo ruc amb serie sec cod))
               (clave48 F now fecha tipo ruc amb serie sec cod))"
    by (simp add: generarClaveAcceso_def Let_def)
qed

theorem generarClaveAcceso_49_digits_mod11_witness:
  "generarClaveAcceso (\<lambda>_. ''23022026'')
      \<lparr>ddMMyyyy = ''02112026'', HHmmss = ''101500'', SSS = ''123''\<rparr>
      (Some ''2026-02-23'') ''01'' ''1790011674001'' ''1'' ''001100'' ''000000001''
      (Some ''12345678'')
     = Inr ''2302202601179001167400110011000000000011234567812''
   \<and> length ''2302202601179001167400110011000000000011234567812'' = 49
   \<and> list_all is_digit ''2302202601179001167400110011000000000011234567812''
   \<and> parseInt_char (last ''2302202601179001167400110011000000000011234567812'') =
       Some (spec_check_digit
         (map digit_value (take 48 ''2302202601179001167400110011000000000011234567812'')))
   \<and> length (clave48 (\<lambda>_. ''23022026'')
        \<lparr>ddMMyyyy = ''02112026'', HHmmss = ''101500'', SSS = ''123''\<rparr>
        None ''1'' ''179001167400'' ''1'' ''001-100'' ''7'' None) \<noteq> 48
   \<and> generarClaveAcceso (\<lambda>_. ''23022026'')
        \<lparr>ddMMyyyy = ''02112026'', HHmmss = ''101500'', SSS = ''123''\<rparr>
        None ''1'' ''179001167400'' ''1'' ''001-100'' ''7'' None
     = Inl (Clave_base_invalida 47 ''02112026011790011674001001100000000007101500121'')"
proof -
  have ok: "generarClaveAcceso (\<lambda>_. ''23022026'')
      \<lparr>ddMMyyyy = ''02112026'', HHmmss = ''101500'', SSS = ''123''\<rparr>
      (Some ''2026-02-23'') ''01'' ''1790011674001'' ''1'' ''001100'' ''000000001''
      (Some ''12345678'')
     = Inr ''2302202601179001167400110011000000000011234567812''"
    by code_simp
  have base: "clave48 (\<lambda>_. ''23022026'')
        \<lparr>ddMMyyyy = ''02112026'', HHmmss = ''101500'', SSS = ''123''\<rparr>
        None ''1'' ''179001167400'' ''1'' ''001-100'' ''7'' None
      = ''02112026011790011674001001100000000007101500121''"
    by code_simp
  show ?thesis
    using generarClaveAcceso_49_digits_mod11 [of "\<lambda>_. ''23022026''"
        "\<lparr>ddMMyyyy = ''02112026'', HHmmss = ''101500'', SSS = ''123''\<rparr>"
        "Some ''2026-02-23''" "''01''" "''1790011674001''" "''1''" "''001100''" "''000000001''"
        "Some ''12345678''" "''2302202601179001167400110011000000000011234567812''"]
      generarClaveAcceso_49_digits_mod11 [of "\<lambda>_. ''23022026''"
        "\<lparr>ddMMyyyy = ''02112026'', HHmmss = ''101500'', SSS = ''123''\<rparr>"
        None "''1''" "''179001167400''" "''1''" "''001-100''" "''7''" None]
    unfolding base ok list_all_iff by simp
qed








section \<open>Properties of the tax calculator\<close>








lemma procesar_item_sel:
  "acc_totalSinImpuestos (procesar_item st i) = acc_totalSinImpuestos st + precioTotalSinImpuesto i"
  "acc_totalDescuento (procesar_item st i) = acc_totalDescuento st + descuento_de i"
  "impuestosAcumulados (procesar_item st i) = acumular i (impuestosAcumulados st)"
  by (simp_all add: procesar_item_def)


lemma foldl_totalDescuento:
  "acc_totalDescuento (foldl procesar_item st items) =
     acc_totalDescuento st + sum_list (map descuento_de items)"
  by (induction items arbitrary: st) (simp_all add: procesar_item_sel)













text \<open>
  In general, a tariff outside the table gets the codes of the 0% row while the tax of the
  line is still computed with the tariff itself.
\<close>

lemma infoSri_desconocida:
  "t \<notin> {0, 5, 12, 15} \<Longrightarrow> infoSri t = (''2'', ''0'')"
  by (simp add: infoSri_def CODIGOS_IVA_def)

lemma detalle_de_desconocida:
  "tarifa_de i \<notin> {0, 5, 12, 15} \<Longrightarrow>
     imp_codigo (det_impuesto (detalle_de i)) = ''2'' \<and>
     imp_codigoPorcentaje (det_impuesto (detalle_de i)) = ''0'' \<and>
     imp_valor (det_impuesto (detalle_de i)) =
       toFixed2 (precioTotalSinImpuesto i * (tarifa_de i / 100))"
  by (simp add: detalle_de_def infoSri_desconocida valorImpuesto_def)

text \<open>
  C7. A line with the unsupported tariff 50 (quantity 1, unit price 100) is given the codes
  of the 0% row, but it is taxed at 50%: the tax value of the line and of its aggregate
  entry is 50.00, \<open>importeTotal\<close> is 150.00 and the base is counted in
  \<open>subtotal_iva\<close>, not in \<open>subtotal_0\<close>.
\<close>

theorem calcularTotalesEImpuestos_tarifa_50:
  "calcularTotalesEImpuestos
      [\<lparr>cantidad = 1, precioUnitario = Some 100, precio = None, descuento = None,
         tarifaIva = Some 50, impuestos = []\<rparr>]
     = \<lparr>detallesXml =
          [\<lparr>det_cantidad = 1, det_precioUnitario = 100, det_descuento = 0,
             det_precioTotalSinImpuesto = 100,
             det_impuesto =
               \<lparr>imp_codigo = ''2'', imp_codigoPorcentaje = ''0'', imp_tarifa = 50,
                  imp_baseImponible = 100, imp_valor = 50\<rparr>\<rparr>],
        totalConImpuestosXml =
          [\<lparr>tot_codigo = ''2'', tot_codigoPorcentaje = ''0'', tot_baseImponible = 100,
             tot_valor = 50\<rparr>],
        totales =
          \<lparr>totalSinImpuestos = 100, totalDescuento = 0, importeTotal = 150, totalIva = 50,
             subtotal_0 = 0, subtotal_iva = 100\<rparr>\<rparr>"
  by code_simp

section \<open>Properties of encrypt and decrypt\<close>











section \<open>Properties of the settlement worker\<close>




























text \<open>
  C10. When the authorization response has a \<open>numeroComprobantes\<close> that is not a positive
  number, the step for that row changes nothing at all: the invoice row, the credits, the
  object store and the webhook log are the same, and the next selection of RECIBIDA rows is
  the same selection.
\<close>

theorem autorizar_factura_sin_comprobantes:
  assumes "autorizacion_de s factura = Autorizacion numeroComprobantes autorizaciones"
    and "numeroComprobantes = None \<or> (\<exists>n. numeroComprobantes = Some n \<and> n \<le> 0)"
  shows "autorizar_factura s factura w = w
         \<and> seleccionar ''RECIBIDA'' (db (autorizar_factura s factura w))
           = seleccionar ''RECIBIDA'' (db w)"
proof -
  have "autorizar_factura s factura w = w"
    using assms by (auto simp: autorizar_factura_def)
  then show ?thesis by simp
qed

theorem autorizar_factura_sin_comprobantes_witness:
  "length (seleccionar ''RECIBIDA'' (db mundo_recibido)) = 2
   \<and> autorizacion_de sri_sin_comprobantes (hd (seleccionar ''RECIBIDA'' (db mundo_recibido)))
       = Autorizacion (Some 0) []
   \<and> autorizar_factura sri_sin_comprobantes (hd (seleccionar ''RECIBIDA'' (db mundo_recibido)))
        mundo_recibido = mundo_recibido
   \<and> seleccionar ''RECIBIDA''
        (db (autorizar_factura sri_sin_comprobantes
               (hd (seleccionar ''RECIBIDA'' (db mundo_recibido))) mundo_recibido))
       = seleccionar ''RECIBIDA'' (db mundo_recibido)"
proof -
  have n: "length (seleccionar ''RECIBIDA'' (db mundo_recibido)) = 2" by code_simp
  have a: "autorizacion_de sri_sin_comprobantes (hd (seleccionar ''RECIBIDA'' (db mundo_recibido)))
       = Autorizacion (Some 0) []"
    by (simp add: sri_sin_comprobantes_def)
  show ?thesis
    using autorizar_factura_sin_comprobantes [OF a, of mundo_recibido] n a by simp
qed

section \<open>Properties of the issuance paths and of the credit balance\<close>

lemma post_invoice_user_credits:
  "user_credits (db (snd (post_invoice env emisorId facturaData w))) = user_credits (db w)"
  by (auto simp: post_invoice_def generar_secuencial_def Let_def
      split: option.splits prod.splits sum.splits if_splits)

text \<open>
  C1. The handler never writes \<open>user_credits\<close>: whatever the request and the outcome, the
  stored balances after it are the stored balances before it; \<open>balanceRestante\<close> only goes
  into the answer. On the issuer with one credit, an issuance succeeds and answers
  \<open>creditos_restantes = 0\<close> while the stored balance stays 1, and a second issuance
  succeeds as well: two successes from a balance of 1, and the balance is still 1.
\<close>

theorem post_invoice_no_debita:
  "user_credits (db (snd (post_invoice env emisorId facturaData w))) = user_credits (db w)
   \<and> balance_de (db mundo_inicial) 1 = Some 1
   \<and> fst (post_invoice entorno_ok 1 factura_100 mundo_inicial) =
       Http201 ''0211202601179001167400110011000000000011015001215'' 0
         ''invoices/1790011674001/0211202601179001167400110011000000000011015001215.xml''
         ''invoices/1790011674001/0211202601179001167400110011000000000011015001215.pdf''
   \<and> balance_de (db (snd (post_invoice entorno_ok 1 factura_100 mundo_inicial))) 1 = Some 1
   \<and> fst (post_invoice entorno_ok 1 factura_100
            (snd (post_invoice entorno_ok 1 factura_100 mundo_inicial))) =
       Http201 ''0211202601179001167400110011000000000021015001210'' 0
         ''invoices/1790011674001/0211202601179001167400110011000000000021015001210.xml''
         ''invoices/1790011674001/0211202601179001167400110011000000000021015001210.pdf''
   \<and> balance_de (db (snd (post_invoice entorno_ok 1 factura_100
            (snd (post_invoice entorno_ok 1 factura_100 mundo_inicial))))) 1 = Some 1"
proof -
  have "balance_de (db mundo_inicial) 1 = Some 1" by code_simp
  moreover have "fst (post_invoice entorno_ok 1 factura_100 mundo_inicial) =
       Http201 ''0211202601179001167400110011000000000011015001215'' 0
         ''invoices/1790011674001/0211202601179001167400110011000000000011015001215.xml''
         ''invoices/1790011674001/0211202601179001167400110011000000000011015001215.pdf''"
    by code_simp
  moreover have "fst (post_invoice entorno_ok 1 factura_100
            (snd (post_invoice entorno_ok 1 factura_100 mundo_inicial))) =
       Http201 ''0211202601179001167400110011000000000021015001210'' 0
         ''invoices/1790011674001/0211202601179001167400110011000000000021015001210.xml''
         ''invoices/1790011674001/0211202601179001167400110011000000000021015001210.pdf''"
    by code_simp
  ultimately show ?thesis
    by (simp add: post_invoice_user_credits balance_de_def)
qed

text \<open>
  C2. The debit of the authorization job has no guard. The issuer with one credit issues
  two invoices; the submit tick has both received and the authorization tick has both
  authorized: the stored balance, 1 before the ticks, is 0 after the first row of the
  authorization tick and -1 after the second, which is the balance the run ends with.
\<close>

theorem autorizarFacturasSRI_balance_negativo:
  "balance_de (db (snd (post_invoice entorno_ok 1 factura_100
       (snd (post_invoice entorno_ok 1 factura_100 mundo_inicial))))) 1 = Some 1
   \<and> map (\<lambda>w. balance_de (db w) 1)
         (pasos (autorizar_factura sri_autoriza) (seleccionar ''RECIBIDA'' (db mundo_recibido))
            mundo_recibido) = [Some 0, Some (- 1)]
   \<and> balance_de (db (ejecutar [Envio sri_autoriza, Autorizar sri_autoriza]
       (snd (post_invoice entorno_ok 1 factura_100
          (snd (post_invoice entorno_ok 1 factura_100 mundo_inicial)))))) 1 = Some (- 1)"
  by code_simp

text \<open>
  C5. On the synchronous path a failure after the uploads rolls the database back and
  leaves the blobs: with an INSERT that fails, the answer is 500, the database is the one
  of the start, and the XML and the PDF are in the store under the would-be key.
\<close>

theorem post_invoice_deja_artefactos:
  "fst (post_invoice (entorno_ok\<lparr>e_insert_ok := False\<rparr>) 1 factura_100 mundo_inicial)
     = Http500 ''insert''
   \<and> db (snd (post_invoice (entorno_ok\<lparr>e_insert_ok := False\<rparr>) 1 factura_100 mundo_inicial))
     = db mundo_inicial
   \<and> minio (snd (post_invoice (entorno_ok\<lparr>e_insert_ok := False\<rparr>) 1 factura_100 mundo_inicial))
     = {(''invoices'', ''1790011674001/0211202601179001167400110011000000000011015001215.xml''),
        (''invoices'', ''1790011674001/0211202601179001167400110011000000000011015001215.pdf'')}"
  by code_simp

text \<open>
  The worker signing path does clean up: when it fails and \<open>deleteFile\<close> succeeds, the
  database is the one of the start and the store holds nothing it did not hold before.
\<close>

lemma limpieza_todo:
  "(\<And>p. delete_ok p) \<Longrightarrow> limpieza delete_ok ps m = m - (\<lambda>p. (''invoices'', p)) ` set ps"
  unfolding limpieza_def by (induction ps arbitrary: m) auto

lemma firmarYEnviarLote_limpia:
  assumes "firmarYEnviarLote env facturaId emisor puntoEmisionDB w = (Inl e, w')"
    and "\<And>p. e_delete_ok env p"
  shows "db w' = db w \<and> minio w' \<subseteq> minio w"
  using assms(1)
  by (auto simp: firmarYEnviarLote_def Let_def limpieza_todo [of "e_delete_ok env", OF assms(2)]
      split: if_splits prod.splits option.splits sum.splits)

end
